theory Spec2Isabelle
  imports Main "HOL-Library.Word"
begin

unbundle bit_operations_syntax

section \<open>Machine types of NMSRotatePlugin.h\<close>

text \<open>
  The plugin is compiled for the LP64 little-endian targets of the inference runtime:
  \<open>float\<close> and \<open>int\<close> are 4 bytes, \<open>size_t\<close> is 8 bytes. A \<open>float\<close> is carried as its
  IEEE-754 binary32 bit pattern; the plugin only copies it and compares it with zero.
\<close>

type_synonym byte = "8 word"
type_synonym int32 = "32 word"
type_synonym size_t = "64 word"
type_synonym float32 = "32 word"

text \<open>The comparison \<open>x > 0\<close> on a \<open>float\<close>: a cleared sign bit, not a zero, not a NaN.\<close>

definition float_sign :: "float32 \<Rightarrow> bool" where
  "float_sign x = bit x 31"

definition float_exponent :: "float32 \<Rightarrow> nat" where
  "float_exponent x = unat (take_bit 8 (drop_bit 23 x))"

definition float_mantissa :: "float32 \<Rightarrow> nat" where
  "float_mantissa x = unat (take_bit 23 x)"

definition float_is_nan :: "float32 \<Rightarrow> bool" where
  "float_is_nan x = (float_exponent x = 255 \<and> float_mantissa x \<noteq> 0)"

definition float_is_zero :: "float32 \<Rightarrow> bool" where
  "float_is_zero x = (float_exponent x = 0 \<and> float_mantissa x = 0)"

definition float_gt_zero :: "float32 \<Rightarrow> bool" where
  "float_gt_zero x = (\<not> float_sign x \<and> \<not> float_is_nan x \<and> \<not> float_is_zero x)"

text \<open>
  The enumerations of NvInfer.h that the plugin names. \<open>PluginFormat\<close> is the runtime's
  tensor format; \<open>kLINEAR\<close> is the dense row-major layout.
\<close>

datatype DataType = kFLOAT | kHALF | kINT8 | kINT32 | kBOOL

datatype PluginFormat = kLINEAR | kCHW2 | kHWC8 | kCHW4 | kCHW16 | kCHW32

text \<open>
  \<open>Dims\<close> of NvInfer.h: a rank and a fixed array of extents; \<open>Dims3\<close> is its three-extent
  constructor.
\<close>

record Dims =
  nbDims :: int32
  d :: "nat \<Rightarrow> int32"

definition Dims3 :: "int32 \<Rightarrow> int32 \<Rightarrow> int32 \<Rightarrow> Dims" where
  "Dims3 d0 d1 d2 =
     \<lparr>nbDims = 3, d = (\<lambda>i. if i = 0 then d0 else if i = 1 then d1 else if i = 2 then d2 else 0)\<rparr>"

text \<open>The number of elements a \<open>Dims\<close> describes: the product of its first \<open>nbDims\<close> extents.\<close>

definition volume :: "Dims \<Rightarrow> int" where
  "volume x = prod_list (map (\<lambda>i. sint (d x i)) [0 ..< nat (sint (nbDims x))])"

text \<open>
  A failed \<open>assert\<close> aborts; a read or write past the end of a buffer has no defined
  behaviour. Both are results of the model.
\<close>

datatype error = AssertionFailed | OutOfBounds

section \<open>Raw reads and writes\<close>

text \<open>The bytes of a value in memory order (least significant first), and back.\<close>

fun to_bytes :: "nat \<Rightarrow> 'a::len word \<Rightarrow> byte list" where
  "to_bytes 0 w = []"
| "to_bytes (Suc n) w = ucast w # to_bytes n (drop_bit 8 w)"

fun from_bytes :: "byte list \<Rightarrow> 'a::len word" where
  "from_bytes [] = 0"
| "from_bytes (b # bs) = ucast b OR push_bit 8 (from_bytes bs)"

definition sizeof :: "'a::len word \<Rightarrow> nat" where
  "sizeof w = LENGTH('a) div 8"

text \<open>
  A cursor is the memory it points into and an offset. \<open>write\<close> stores the bytes of the
  value at the cursor and advances it by the value's size; \<open>read\<close> loads a value of the
  requested type and advances likewise.
\<close>

type_synonym cursor = "byte list \<times> nat"

definition "write" :: "cursor \<Rightarrow> 'a::len word \<Rightarrow> error + cursor" where
  "write buffer val =
     (case buffer of (mem, off) \<Rightarrow>
        if length mem < off + sizeof val then Inl OutOfBounds
        else Inr (take off mem @ to_bytes (sizeof val) val @ drop (off + sizeof val) mem,
                  off + sizeof val))"

definition "read" :: "cursor \<Rightarrow> error + ('a::len word \<times> cursor)" where
  "read buffer =
     (case buffer of (mem, off) \<Rightarrow>
        if length mem < off + LENGTH('a) div 8 then Inl OutOfBounds
        else Inr (from_bytes (take (LENGTH('a) div 8) (drop off mem)),
                  (mem, off + LENGTH('a) div 8)))"

section \<open>The plugin object\<close>

text \<open>
  The four data members: \<open>_nms_thresh\<close>, \<open>_detections_per_im\<close>, \<open>_count\<close> and the
  mutable \<open>size\<close>, whose initial value \<open>-1\<close> means that no workspace size is cached.
\<close>

record NMSRotatePlugin =
  nms_thresh :: float32
  detections_per_im :: int32
  count :: size_t
  size_m :: int32

subsection \<open>Serialization\<close>

definition getSerializationSize :: "NMSRotatePlugin \<Rightarrow> size_t" where
  "getSerializationSize p =
     of_nat (sizeof (nms_thresh p)) + of_nat (sizeof (detections_per_im p))
       + of_nat (sizeof (count p))"

definition serialize :: "NMSRotatePlugin \<Rightarrow> byte list \<Rightarrow> error + byte list" where
  "serialize p buffer =
     (case write (buffer, 0) (nms_thresh p) of
        Inl e \<Rightarrow> Inl e
      | Inr d1 \<Rightarrow>
          (case write d1 (detections_per_im p) of
             Inl e \<Rightarrow> Inl e
           | Inr d2 \<Rightarrow>
               (case write d2 (count p) of
                  Inl e \<Rightarrow> Inl e
                | Inr d3 \<Rightarrow> Inr (fst d3))))"

text \<open>
  \<open>deserialize\<close> fills the three configuration members from the buffer; its \<open>length\<close>
  argument (here \<open>length_arg\<close>) is not used. The member \<open>size\<close> keeps the value it had.
\<close>

definition deserialize :: "NMSRotatePlugin \<Rightarrow> byte list \<Rightarrow> size_t \<Rightarrow> error + NMSRotatePlugin" where
  "deserialize p data length_arg =
     (case read (data, 0) of
        Inl e \<Rightarrow> Inl e
      | Inr (t, d1) \<Rightarrow>
          (case read d1 of
             Inl e \<Rightarrow> Inl e
           | Inr (n, d2) \<Rightarrow>
               (case read d2 of
                  Inl e \<Rightarrow> Inl e
                | Inr (c, d3) \<Rightarrow>
                    Inr (p\<lparr>nms_thresh := t, detections_per_im := n, count := c\<rparr>))))"

text \<open>
  The serialized configuration layout in the words of the specification (section 6): the
  fixed-order, fixed-width concatenation of \<open>nms_thresh\<close> (float), \<open>detections_per_im\<close>
  (native integer) and \<open>count\<close> (native size integer), with no padding. It is compared
  with what \<open>serialize\<close> writes.
\<close>

definition serialized_layout :: "NMSRotatePlugin \<Rightarrow> byte list" where
  "serialized_layout p =
     to_bytes 4 (nms_thresh p) @ to_bytes 4 (detections_per_im p) @ to_bytes 8 (count p)"

subsection \<open>Constructors\<close>

text \<open>
  The two-argument constructor leaves \<open>_count\<close> uninitialised; the value the member
  happens to hold is the argument \<open>indeterminate\<close>. The same holds for the three
  configuration members at the start of the deserializing constructor.
\<close>

definition NMSRotatePlugin2 :: "float32 \<Rightarrow> int32 \<Rightarrow> size_t \<Rightarrow> error + NMSRotatePlugin" where
  "NMSRotatePlugin2 thresh per_im indeterminate =
     (if \<not> float_gt_zero thresh then Inl AssertionFailed
      else if \<not> 0 <s per_im then Inl AssertionFailed
      else Inr \<lparr>nms_thresh = thresh, detections_per_im = per_im,
                count = indeterminate, size_m = - 1\<rparr>)"

definition NMSRotatePlugin3 :: "float32 \<Rightarrow> int32 \<Rightarrow> size_t \<Rightarrow> error + NMSRotatePlugin" where
  "NMSRotatePlugin3 thresh per_im cnt =
     (if \<not> float_gt_zero thresh then Inl AssertionFailed
      else if \<not> 0 <s per_im then Inl AssertionFailed
      else if \<not> 0 < cnt then Inl AssertionFailed
      else Inr \<lparr>nms_thresh = thresh, detections_per_im = per_im, count = cnt, size_m = - 1\<rparr>)"

definition NMSRotatePlugin_data ::
  "NMSRotatePlugin \<Rightarrow> byte list \<Rightarrow> size_t \<Rightarrow> error + NMSRotatePlugin" where
  "NMSRotatePlugin_data indeterminate data length_arg =
     deserialize (indeterminate\<lparr>size_m := - 1\<rparr>) data length_arg"

subsection \<open>Outputs and formats\<close>

definition getNbOutputs :: "NMSRotatePlugin \<Rightarrow> int32" where
  "getNbOutputs p = 3"

text \<open>The product \<open>_detections_per_im * ...\<close> is an \<open>int\<close> product: it wraps at 32 bits.\<close>

definition getOutputDimensions ::
  "NMSRotatePlugin \<Rightarrow> int32 \<Rightarrow> Dims list \<Rightarrow> int32 \<Rightarrow> error + Dims" where
  "getOutputDimensions p index inputs nbInputDims =
     (if nbInputDims \<noteq> 3 then Inl AssertionFailed
      else if \<not> index <s getNbOutputs p then Inl AssertionFailed
      else Inr (Dims3 (detections_per_im p * (if index = 1 then 6 else 1)) 1 1))"

definition supportsFormat :: "NMSRotatePlugin \<Rightarrow> DataType \<Rightarrow> PluginFormat \<Rightarrow> bool" where
  "supportsFormat p type format = (type = kFLOAT \<and> format = kLINEAR)"

definition getOutputDataType ::
  "NMSRotatePlugin \<Rightarrow> int32 \<Rightarrow> DataType list \<Rightarrow> int32 \<Rightarrow> error + DataType" where
  "getOutputDataType p index inputTypes nbInputs =
     (if \<not> index <s 3 then Inl AssertionFailed else Inr kFLOAT)"

subsection \<open>Workspace size and execution\<close>

text \<open>
  \<open>cuda::nms_rotate\<close> is declared in \<open>../cuda/nms_iou.h\<close> and is a parameter here. Its
  arguments are the batch size, the input and output pointers, the candidate count, the
  detections per image, the threshold, the workspace pointer, the workspace size and the
  stream; a null pointer is \<open>None\<close>. It returns an \<open>int\<close> and the outputs as it leaves them.
\<close>

type_synonym ('i, 'o, 'w, 's) nms_rotate_fn =
  "int32 \<Rightarrow> 'i option \<Rightarrow> 'o option \<Rightarrow> size_t \<Rightarrow> int32 \<Rightarrow> float32 \<Rightarrow> 'w option \<Rightarrow> size_t
     \<Rightarrow> 's option \<Rightarrow> int32 \<times> 'o option"

text \<open>
  \<open>getWorkspaceSize\<close> is \<open>const\<close> but assigns the mutable member \<open>size\<close>, so it returns
  the plugin as well. The \<open>int\<close> it holds is converted to \<open>size_t\<close> on return.
\<close>

definition getWorkspaceSize ::
  "('i, 'o, 'w, 's) nms_rotate_fn \<Rightarrow> NMSRotatePlugin \<Rightarrow> int32 \<Rightarrow> size_t \<times> NMSRotatePlugin" where
  "getWorkspaceSize nms_rotate p maxBatchSize =
     (let p' = (if size_m p <s 0
                then p\<lparr>size_m := fst (nms_rotate maxBatchSize None None (count p)
                                         (detections_per_im p) (nms_thresh p) None 0 None)\<rparr>
                else p)
      in (scast (size_m p'), p'))"

definition enqueue ::
  "('i, 'o, 'w, 's) nms_rotate_fn \<Rightarrow> NMSRotatePlugin \<Rightarrow> int32 \<Rightarrow> 'i option \<Rightarrow> 'o option
     \<Rightarrow> 'w option \<Rightarrow> 's option \<Rightarrow> (int32 \<times> 'o option) \<times> NMSRotatePlugin" where
  "enqueue nms_rotate p batchSize inputs outputs workspace stream =
     (case getWorkspaceSize nms_rotate p batchSize of
        (workspace_size, p') \<Rightarrow>
          (nms_rotate batchSize inputs outputs (count p') (detections_per_im p')
             (nms_thresh p') workspace workspace_size stream, p'))"

subsection \<open>Configuration and cloning\<close>

text \<open>
  \<open>configurePlugin\<close> reads \<open>*inputTypes\<close> and \<open>inputDims[0..2]\<close>; the pointers are the
  lists of what they point to. The arguments it never reads (output dimensions and types,
  broadcast flags, the maximal batch size) are left out. The \<open>int\<close> extent is converted
  to \<open>size_t\<close> by the assignment to \<open>_count\<close>.
\<close>

definition configurePlugin ::
  "NMSRotatePlugin \<Rightarrow> Dims list \<Rightarrow> int32 \<Rightarrow> DataType list \<Rightarrow> PluginFormat
     \<Rightarrow> error + NMSRotatePlugin" where
  "configurePlugin p inputDims nbInputs inputTypes floatFormat =
     (case inputTypes of
        [] \<Rightarrow> Inl OutOfBounds
      | t0 # _ \<Rightarrow>
          if \<not> (t0 = kFLOAT \<and> floatFormat = kLINEAR) then Inl AssertionFailed
          else if nbInputs \<noteq> 3 then Inl AssertionFailed
          else if length inputDims < 3 then Inl OutOfBounds
          else if d (inputDims ! 0) 0 \<noteq> d (inputDims ! 2) 0 then Inl AssertionFailed
          else if d (inputDims ! 1) 0 \<noteq> d (inputDims ! 2) 0 * 6 then Inl AssertionFailed
          else Inr (p\<lparr>count := scast (d (inputDims ! 0) 0)\<rparr>))"

definition clone :: "NMSRotatePlugin \<Rightarrow> error + NMSRotatePlugin" where
  "clone p = NMSRotatePlugin3 (nms_thresh p) (detections_per_im p) (count p)"

subsection \<open>An instance of the sizing path\<close>

text \<open>
  An instance of the parameter \<open>cuda::nms_rotate\<close> for the examples below: it asks for
  four bytes per candidate of the batch and leaves the outputs alone. It stands for a
  sizing path whose answer depends on the batch size and on the candidate count.
\<close>

definition example_nms_rotate :: "(unit, unit, unit, unit) nms_rotate_fn" where
  "example_nms_rotate batchSize inputs outputs cnt per_im thresh workspace workspace_size stream =
     (batchSize * ucast cnt * 4, outputs)"

section \<open>The suppression pass\<close>

text \<open>
  Modelled from the spec: the body of \<open>cuda::nms_rotate\<close> (\<open>csrc/cuda/nms_iou.h\<close> and
  its implementation) is not among the sources. The definitions of this section follow
  sections 3, 4.2, 4.3 and 4.4 of the specification. A candidate has a score, a rotated
  box and a class; the overlap of two boxes (section 4.1) is a parameter \<open>overlap\<close> with
  values in a linear order.
\<close>

record ('s, 'b) Candidate =
  score :: 's
  box :: 'b
  class_id :: int

text \<open>
  Modelled from the spec: the Candidate Ranker of section 4.2, absent from the sources.
  It orders the indices of an image's candidates by descending score, equal scores by
  ascending original index.
\<close>

definition ranked_before :: "'s::linorder list \<Rightarrow> nat \<Rightarrow> nat \<Rightarrow> bool" where
  "ranked_before scores i j =
     (scores ! j < scores ! i \<or> (scores ! i = scores ! j \<and> i < j))"

fun insert_ranked :: "'s::linorder list \<Rightarrow> nat \<Rightarrow> nat list \<Rightarrow> nat list" where
  "insert_ranked scores i [] = [i]"
| "insert_ranked scores i (j # js) =
     (if ranked_before scores i j then i # j # js else j # insert_ranked scores i js)"

definition ranker :: "'s::linorder list \<Rightarrow> nat list" where
  "ranker scores = foldr (insert_ranked scores) [0 ..< length scores] []"

text \<open>
  Modelled from the spec: the Suppression Engine of section 4.3, absent from the sources.
  It walks the candidates in ranked order with the list of kept detections, initially
  empty; a candidate is kept when its overlap with every kept detection is at most
  \<open>nms_thresh\<close>, and nothing is kept once \<open>detections_per_im\<close> detections are.
\<close>

fun suppress ::
  "('b \<Rightarrow> 'b \<Rightarrow> 'v::linorder) \<Rightarrow> 'v \<Rightarrow> nat \<Rightarrow> ('s, 'b) Candidate list \<Rightarrow> ('s, 'b) Candidate list
     \<Rightarrow> ('s, 'b) Candidate list" where
  "suppress overlap thresh per_im kept [] = kept"
| "suppress overlap thresh per_im kept (c # cs) =
     (if per_im \<le> length kept then kept
      else if list_all (\<lambda>k. overlap (box c) (box k) \<le> thresh) kept
           then suppress overlap thresh per_im (kept @ [c]) cs
           else suppress overlap thresh per_im kept cs)"

definition suppression_engine ::
  "('b \<Rightarrow> 'b \<Rightarrow> 'v::linorder) \<Rightarrow> 'v \<Rightarrow> nat \<Rightarrow> ('s::linorder, 'b) Candidate list
     \<Rightarrow> ('s, 'b) Candidate list" where
  "suppression_engine overlap thresh per_im candidates =
     suppress overlap thresh per_im []
       (map (\<lambda>i. candidates ! i) (ranker (map score candidates)))"

text \<open>
  Modelled from the spec: the Batch Dispatcher of section 4.4, absent from the sources.
  It runs the engine on every image of the batch on its own.
\<close>

definition batch_dispatcher ::
  "('b \<Rightarrow> 'b \<Rightarrow> 'v::linorder) \<Rightarrow> 'v \<Rightarrow> nat \<Rightarrow> ('s::linorder, 'b) Candidate list list
     \<Rightarrow> ('s, 'b) Candidate list list" where
  "batch_dispatcher overlap thresh per_im batch =
     map (suppression_engine overlap thresh per_im) batch"

section \<open>Bytes of a value\<close>

lemma length_to_bytes: "length (to_bytes n w) = n"
  by (induction n arbitrary: w) simp_all

lemma from_bytes_to_bytes: "from_bytes (to_bytes n w) = take_bit (8 * n) w"
proof (induction n arbitrary: w)
  case 0
  then show ?case by simp
next
  case (Suc n)
  have "ucast (ucast w :: byte) OR push_bit 8 (take_bit (8 * n) (drop_bit 8 w))
          = take_bit (8 * Suc n) w"
    by (rule bit_word_eqI) (auto simp: bit_simps)
  then show ?case by (simp add: Suc)
qed

lemma from_bytes_to_bytes_32: "from_bytes (to_bytes 4 w) = (w :: 32 word)"
  by (simp add: from_bytes_to_bytes take_bit_word_eq_self)

lemma from_bytes_to_bytes_64: "from_bytes (to_bytes 8 w) = (w :: 64 word)"
  by (simp add: from_bytes_to_bytes take_bit_word_eq_self)

lemma read_32:
  "(read (mem, off) :: error + (32 word \<times> cursor)) =
     (if length mem < off + 4 then Inl OutOfBounds
      else Inr (from_bytes (take 4 (drop off mem)), (mem, off + 4)))"
  by (simp add: read_def)

lemma read_64:
  "(read (mem, off) :: error + (64 word \<times> cursor)) =
     (if length mem < off + 8 then Inl OutOfBounds
      else Inr (from_bytes (take 8 (drop off mem)), (mem, off + 8)))"
  by (simp add: read_def)

lemma write_32:
  "write (mem, off) (v :: 32 word) =
     (if length mem < off + 4 then Inl OutOfBounds
      else Inr (take off mem @ to_bytes 4 v @ drop (off + 4) mem, off + 4))"
  by (simp add: write_def sizeof_def)

lemma write_64:
  "write (mem, off) (v :: 64 word) =
     (if length mem < off + 8 then Inl OutOfBounds
      else Inr (take off mem @ to_bytes 8 v @ drop (off + 8) mem, off + 8))"
  by (simp add: write_def sizeof_def)

section \<open>Properties of serialization\<close>

lemma getSerializationSize_16: "getSerializationSize p = 16"
  by (simp add: getSerializationSize_def sizeof_def)

lemma length_serialized_layout: "length (serialized_layout p) = 16"
  by (simp add: serialized_layout_def length_to_bytes)

lemma serialize_eq:
  "serialize p buffer =
     (if length buffer < 16 then Inl OutOfBounds
      else Inr (serialized_layout p @ drop 16 buffer))"
  by (simp add: serialize_def serialized_layout_def write_32 write_64 length_to_bytes)

lemma deserialize_eq:
  "deserialize p data l =
     (if length data < 16 then Inl OutOfBounds
      else Inr (p\<lparr>nms_thresh := from_bytes (take 4 data),
                 detections_per_im := from_bytes (take 4 (drop 4 data)),
                 count := from_bytes (take 8 (drop 8 data))\<rparr>))"
  by (simp add: deserialize_def read_32 read_64)

lemma NMSRotatePlugin_data_eq:
  "NMSRotatePlugin_data q data l =
     (if length data < 16 then Inl OutOfBounds
      else Inr \<lparr>nms_thresh = from_bytes (take 4 data),
                detections_per_im = from_bytes (take 4 (drop 4 data)),
                count = from_bytes (take 8 (drop 8 data)), size_m = - 1\<rparr>)"
  by (simp add: NMSRotatePlugin_data_def deserialize_eq)

lemma NMSRotatePlugin_data_layout:
  "NMSRotatePlugin_data q (serialized_layout p @ rest) l =
     Inr \<lparr>nms_thresh = nms_thresh p, detections_per_im = detections_per_im p,
          count = count p, size_m = - 1\<rparr>"
  by (simp add: NMSRotatePlugin_data_eq serialized_layout_def length_to_bytes
      from_bytes_to_bytes_32 from_bytes_to_bytes_64)

lemma NMSRotatePlugin_data_take:
  "NMSRotatePlugin_data q data l = NMSRotatePlugin_data q' (take 16 data) l'"
  by (simp add: NMSRotatePlugin_data_eq drop_take)

text \<open>
  Claim C3. Given a buffer of at least \<open>getSerializationSize()\<close> bytes, \<open>serialize\<close>
  overwrites exactly its first \<open>getSerializationSize()\<close> = 16 bytes with the unpadded
  concatenation of \<open>nms_thresh\<close> (4 bytes), \<open>detections_per_im\<close> (4 bytes) and \<open>count\<close>
  (8 bytes) and leaves the rest of the buffer as it was; the deserializing constructor
  applied to the result yields a plugin with the same \<open>nms_thresh\<close>, \<open>detections_per_im\<close>
  and \<open>count\<close> (and an unset cached size), whatever its length argument.
\<close>

theorem serialize_roundtrip:
  assumes "unat (getSerializationSize p) \<le> length buffer"
  shows "serialize p buffer
           = Inr (serialized_layout p @ drop (unat (getSerializationSize p)) buffer)
         \<and> length (serialized_layout p) = unat (getSerializationSize p)
         \<and> length (serialized_layout p @ drop (unat (getSerializationSize p)) buffer)
             = length buffer
         \<and> NMSRotatePlugin_data q
               (serialized_layout p @ drop (unat (getSerializationSize p)) buffer) len
             = Inr \<lparr>nms_thresh = nms_thresh p, detections_per_im = detections_per_im p,
                    count = count p, size_m = - 1\<rparr>"
  using assms
  by (simp add: getSerializationSize_16 serialize_eq length_serialized_layout
      NMSRotatePlugin_data_layout)

theorem serialize_roundtrip_witness:
  "unat (getSerializationSize
           \<lparr>nms_thresh = 0x3F000000, detections_per_im = 100, count = 1000, size_m = 7\<rparr>)
     \<le> length [1, 2, 3, 4, 5, 6, 7, 8, 9, 10, 11, 12, 13, 14, 15, 16, 17, 18 :: byte]
   \<and> serialize \<lparr>nms_thresh = 0x3F000000, detections_per_im = 100, count = 1000, size_m = 7\<rparr>
        [1, 2, 3, 4, 5, 6, 7, 8, 9, 10, 11, 12, 13, 14, 15, 16, 17, 18]
       = Inr [0, 0, 0, 0x3F, 100, 0, 0, 0, 0xE8, 3, 0, 0, 0, 0, 0, 0, 17, 18]
   \<and> NMSRotatePlugin_data
        \<lparr>nms_thresh = 5, detections_per_im = 6, count = 7, size_m = 8\<rparr>
        [0, 0, 0, 0x3F, 100, 0, 0, 0, 0xE8, 3, 0, 0, 0, 0, 0, 0, 17, 18] 3
       = Inr \<lparr>nms_thresh = 0x3F000000, detections_per_im = 100, count = 1000, size_m = - 1\<rparr>"
proof -
  have bytes:
    "serialized_layout
       \<lparr>nms_thresh = 0x3F000000, detections_per_im = 100, count = 1000, size_m = 7\<rparr>
     = [0, 0, 0, 0x3F, 100, 0, 0, 0, 0xE8, 3, 0, 0, 0, 0, 0, 0]"
    by code_simp
  show ?thesis
    using serialize_roundtrip
      [of "\<lparr>nms_thresh = 0x3F000000, detections_per_im = 100, count = 1000, size_m = 7\<rparr>"
          "[1, 2, 3, 4, 5, 6, 7, 8, 9, 10, 11, 12, 13, 14, 15, 16, 17, 18]"
          "\<lparr>nms_thresh = 5, detections_per_im = 6, count = 7, size_m = 8\<rparr>" 3]
    by (simp add: getSerializationSize_16 bytes)
qed

text \<open>
  Claim C9. The result of the deserializing constructor is determined by the first
  \<open>sizeof(float) + sizeof(int) + sizeof(size_t)\<close> = 16 bytes at the pointer: two buffers
  that agree on them give the same result for any two length arguments (and any two
  prior contents of the object under construction).
\<close>

theorem deserialize_leading_bytes:
  assumes "take 16 data1 = take 16 data2"
  shows "NMSRotatePlugin_data q1 data1 len1 = NMSRotatePlugin_data q2 data2 len2"
proof -
  have "NMSRotatePlugin_data q1 data1 len1 = NMSRotatePlugin_data q1 (take 16 data1) len1"
    by (rule NMSRotatePlugin_data_take)
  also have "\<dots> = NMSRotatePlugin_data q1 (take 16 data2) len1"
    by (simp only: assms)
  also have "\<dots> = NMSRotatePlugin_data q2 data2 len2"
    by (rule NMSRotatePlugin_data_take [symmetric])
  finally show ?thesis .
qed

theorem deserialize_leading_bytes_witness:
  "take 16 [0, 0, 0, 0x3F, 100, 0, 0, 0, 0xE8, 3, 0, 0, 0, 0, 0, 0, 17, 18 :: byte]
     = take 16 [0, 0, 0, 0x3F, 100, 0, 0, 0, 0xE8, 3, 0, 0, 0, 0, 0, 0, 99]
   \<and> NMSRotatePlugin_data
        \<lparr>nms_thresh = 5, detections_per_im = 6, count = 7, size_m = 8\<rparr>
        [0, 0, 0, 0x3F, 100, 0, 0, 0, 0xE8, 3, 0, 0, 0, 0, 0, 0, 17, 18] 18
     = NMSRotatePlugin_data
        \<lparr>nms_thresh = 1, detections_per_im = 2, count = 3, size_m = 4\<rparr>
        [0, 0, 0, 0x3F, 100, 0, 0, 0, 0xE8, 3, 0, 0, 0, 0, 0, 0, 99] 0"
  using deserialize_leading_bytes
    [of "[0, 0, 0, 0x3F, 100, 0, 0, 0, 0xE8, 3, 0, 0, 0, 0, 0, 0, 17, 18]"
        "[0, 0, 0, 0x3F, 100, 0, 0, 0, 0xE8, 3, 0, 0, 0, 0, 0, 0, 99]"
        "\<lparr>nms_thresh = 5, detections_per_im = 6, count = 7, size_m = 8\<rparr>" 18
        "\<lparr>nms_thresh = 1, detections_per_im = 2, count = 3, size_m = 4\<rparr>" 0]
  by simp

section \<open>Construction\<close>

lemma NMSRotatePlugin3_Inr_iff:
  "NMSRotatePlugin3 t n c = Inr p \<longleftrightarrow>
     float_gt_zero t \<and> 0 <s n \<and> 0 < c
     \<and> p = \<lparr>nms_thresh = t, detections_per_im = n, count = c, size_m = - 1\<rparr>"
  by (auto simp: NMSRotatePlugin3_def)

lemma NMSRotatePlugin2_Inr_iff:
  "NMSRotatePlugin2 t n u = Inr p \<longleftrightarrow>
     float_gt_zero t \<and> 0 <s n
     \<and> p = \<lparr>nms_thresh = t, detections_per_im = n, count = u, size_m = - 1\<rparr>"
  by (auto simp: NMSRotatePlugin2_def)

lemma float_gt_zero_0: "\<not> float_gt_zero 0"
  by (simp add: float_gt_zero_def float_is_zero_def float_exponent_def float_mantissa_def)

text \<open>
  Claim C2. Every construction path rejects an invalid configuration. The two direct
  constructors do (\<open>NMSRotatePlugin3_Inr_iff\<close>, \<open>NMSRotatePlugin2_Inr_iff\<close>); the
  deserializing constructor makes none of their assertions. From a buffer of sixteen
  zero bytes it builds a plugin with \<open>nms_thresh = 0.0\<close>, \<open>detections_per_im = 0\<close> and
  \<open>count = 0\<close>, a configuration that the three-argument constructor refuses.
\<close>

theorem deserialize_accepts_invalid_configuration:
  "NMSRotatePlugin_data q (replicate 16 0) len
     = Inr \<lparr>nms_thresh = 0, detections_per_im = 0, count = 0, size_m = - 1\<rparr>
   \<and> \<not> float_gt_zero 0 \<and> \<not> 0 <s (0 :: int32) \<and> \<not> 0 < (0 :: size_t)
   \<and> NMSRotatePlugin3 0 0 0 = Inl AssertionFailed"
proof -
  have "replicate 16 (0 :: byte) = [0, 0, 0, 0, 0, 0, 0, 0, 0, 0, 0, 0, 0, 0, 0, 0]"
    by (simp add: eval_nat_numeral)
  then show ?thesis
    by (simp add: NMSRotatePlugin_data_eq float_gt_zero_0 NMSRotatePlugin3_def)
qed

section \<open>Properties of the outputs and formats\<close>

lemma sint_times_6:
  fixes x :: int32
  assumes "- (2 ^ 31) \<le> 6 * sint x" "6 * sint x < 2 ^ 31"
  shows "sint (x * 6) = 6 * sint x"
proof -
  have "sint (x * 6) = signed_take_bit 31 (sint x * 6)"
    by (simp add: sint_word_ariths)
  also have "\<dots> = sint x * 6"
    using assms by (intro signed_take_bit_int_eq_self) simp_all
  finally show ?thesis by simp
qed

lemma volume_Dims3: "volume (Dims3 a b c) = sint a * sint b * sint c"
proof -
  have "[0 ..< 3] = [0, 1, 2::nat]"
    by (simp add: upt_rec)
  then show ?thesis
    by (simp add: volume_def Dims3_def)
qed

text \<open>
  Claim C6, amended. The plugin declares three outputs. For each output index 0, 1, 2,
  queried with the plugin's three inputs, and a \<open>detections_per_im\<close> whose sixfold is
  representable as \<open>int\<close>, the output with index 1 has \<open>detections_per_im * 6\<close> elements
  and the other two have \<open>detections_per_im\<close> elements, and the declared type of every
  output is single-precision float.
\<close>

theorem output_layout:
  assumes "index = 0 \<or> index = 1 \<or> index = 2"
    and "nbInputDims = 3"
    and "- (2 ^ 31) \<le> 6 * sint (detections_per_im p)"
    and "6 * sint (detections_per_im p) < 2 ^ 31"
  shows "getNbOutputs p = 3
         \<and> index <s getNbOutputs p
         \<and> (\<exists>dims. getOutputDimensions p index inputs nbInputDims = Inr dims
                \<and> volume dims = (if index = 1 then 6 * sint (detections_per_im p)
                                 else sint (detections_per_im p)))
         \<and> getOutputDataType p index inputTypes nbInputs = Inr kFLOAT"
  using assms
  by (auto simp: getNbOutputs_def getOutputDimensions_def getOutputDataType_def
      volume_Dims3 sint_times_6 word_sless_alt)

theorem output_layout_witness:
  "- (2 ^ 31) \<le> 6 * sint (100 :: int32) \<and> 6 * sint (100 :: int32) < 2 ^ 31
   \<and> getNbOutputs \<lparr>nms_thresh = 0x3F000000, detections_per_im = 100, count = 1000, size_m = - 1\<rparr> = 3
   \<and> getOutputDimensions
        \<lparr>nms_thresh = 0x3F000000, detections_per_im = 100, count = 1000, size_m = - 1\<rparr>
        1 [] 3 = Inr (Dims3 600 1 1)
   \<and> volume (Dims3 600 1 1) = 600
   \<and> getOutputDimensions
        \<lparr>nms_thresh = 0x3F000000, detections_per_im = 100, count = 1000, size_m = - 1\<rparr>
        2 [] 3 = Inr (Dims3 100 1 1)
   \<and> volume (Dims3 100 1 1) = 100
   \<and> getOutputDataType
        \<lparr>nms_thresh = 0x3F000000, detections_per_im = 100, count = 1000, size_m = - 1\<rparr>
        1 [] 3 = Inr kFLOAT"
  using output_layout
    [of 1 3 "\<lparr>nms_thresh = 0x3F000000, detections_per_im = 100, count = 1000, size_m = - 1\<rparr>"
        "[]" "[]" 3]
  by (simp add: getOutputDimensions_def getNbOutputs_def volume_Dims3)

text \<open>
  Claim C6 as first stated has no condition on \<open>detections_per_im\<close>. The three-argument
  constructor accepts 400000000 detections per image; the \<open>int\<close> product with 6 is then
  not representable, and the boxes output is declared with -1894967296 elements, not
  with 2400000000.
\<close>

theorem output_layout_counterexample:
  "NMSRotatePlugin3 0x3F000000 400000000 1000
     = Inr \<lparr>nms_thresh = 0x3F000000, detections_per_im = 400000000, count = 1000, size_m = - 1\<rparr>
   \<and> getOutputDimensions
        \<lparr>nms_thresh = 0x3F000000, detections_per_im = 400000000, count = 1000, size_m = - 1\<rparr>
        1 [] 3 = Inr (Dims3 2400000000 1 1)
   \<and> volume (Dims3 2400000000 1 1) = - 1894967296
   \<and> volume (Dims3 2400000000 1 1) \<noteq> 6 * sint (400000000 :: int32)"
proof -
  have pos: "float_gt_zero 0x3F000000"
    by (simp add: float_gt_zero_def float_sign_def float_is_nan_def float_is_zero_def
        float_exponent_def float_mantissa_def)
  show ?thesis
    using pos
    by (simp add: NMSRotatePlugin3_def getOutputDimensions_def getNbOutputs_def volume_Dims3
        word_sless_alt)
qed

text \<open>
  Claim C7. \<open>supportsFormat\<close> answers true exactly for single-precision float in the
  linear format; of all pairs of a data type and a format, that pair is the only one it
  accepts. It is a pure test: it computes nothing else.
\<close>

theorem supportsFormat_iff:
  "supportsFormat p type format = (type = kFLOAT \<and> format = kLINEAR)
   \<and> {(t, f). supportsFormat p t f} = {(kFLOAT, kLINEAR)}"
  by (auto simp: supportsFormat_def)

section \<open>Configuration\<close>

lemma configurePlugin_Inr_iff:
  "configurePlugin p inputDims nbInputs inputTypes floatFormat = Inr p' \<longleftrightarrow>
     inputTypes \<noteq> [] \<and> hd inputTypes = kFLOAT \<and> floatFormat = kLINEAR \<and> nbInputs = 3
     \<and> 3 \<le> length inputDims
     \<and> d (inputDims ! 0) 0 = d (inputDims ! 2) 0
     \<and> d (inputDims ! 1) 0 = d (inputDims ! 2) 0 * 6
     \<and> p' = p\<lparr>count := scast (d (inputDims ! 0) 0)\<rparr>"
  by (cases inputTypes) (auto simp: configurePlugin_def)

text \<open>
  Claim C5, amended. Given the arrays it reads (at least one input type, three input
  dimensions) and a classes length whose sixfold is representable as \<open>int\<close>,
  \<open>configurePlugin\<close> accepts exactly when \<open>nbInputs\<close> is 3, the data type of the first
  input is single-precision float, the format is linear, the scores and classes lengths
  are equal and the boxes length is six times the classes length; the data types of the
  second and third input are not inspected. On success \<open>count\<close> is the scores length
  and nothing else of the plugin changes. Violations fail at configuration time, never
  during a run: a rejected configuration leaves no configured plugin, and \<open>enqueue\<close>
  makes no assertion and returns what \<open>cuda::nms_rotate\<close> returns.
\<close>

theorem configurePlugin_accepts_iff:
  assumes "inputTypes \<noteq> []" and "3 \<le> length inputDims"
    and "- (2 ^ 31) \<le> 6 * sint (d (inputDims ! 2) 0)"
    and "6 * sint (d (inputDims ! 2) 0) < 2 ^ 31"
  shows "((\<exists>p'. configurePlugin p inputDims nbInputs inputTypes floatFormat = Inr p') \<longleftrightarrow>
            nbInputs = 3 \<and> hd inputTypes = kFLOAT \<and> floatFormat = kLINEAR
            \<and> sint (d (inputDims ! 0) 0) = sint (d (inputDims ! 2) 0)
            \<and> sint (d (inputDims ! 1) 0) = 6 * sint (d (inputDims ! 2) 0))
         \<and> (\<forall>p'. configurePlugin p inputDims nbInputs inputTypes floatFormat = Inr p' \<longrightarrow>
               p' = p\<lparr>count := scast (d (inputDims ! 0) 0)\<rparr>)
         \<and> ((\<forall>p'. configurePlugin p inputDims nbInputs inputTypes floatFormat \<noteq> Inr p') \<longleftrightarrow>
              configurePlugin p inputDims nbInputs inputTypes floatFormat = Inl AssertionFailed)
         \<and> enqueue nms_rotate q batchSize inputs outputs workspace stream
             = (nms_rotate batchSize inputs outputs (count q) (detections_per_im q) (nms_thresh q)
                  workspace (fst (getWorkspaceSize nms_rotate q batchSize)) stream,
                snd (getWorkspaceSize nms_rotate q batchSize))"
proof -
  have "d (inputDims ! 1) 0 = d (inputDims ! 2) 0 * 6
          \<longleftrightarrow> sint (d (inputDims ! 1) 0) = sint (d (inputDims ! 2) 0 * 6)"
    by (rule word_eq_iff_signed)
  then have six: "d (inputDims ! 1) 0 = d (inputDims ! 2) 0 * 6
               \<longleftrightarrow> sint (d (inputDims ! 1) 0) = 6 * sint (d (inputDims ! 2) 0)"
    by (simp only: sint_times_6 [OF assms(3,4)])
  have eq: "d (inputDims ! 0) 0 = d (inputDims ! 2) 0
               \<longleftrightarrow> sint (d (inputDims ! 0) 0) = sint (d (inputDims ! 2) 0)"
    by (rule word_eq_iff_signed)
  have accepts: "(\<exists>p'. configurePlugin p inputDims nbInputs inputTypes floatFormat = Inr p') \<longleftrightarrow>
            nbInputs = 3 \<and> hd inputTypes = kFLOAT \<and> floatFormat = kLINEAR
            \<and> sint (d (inputDims ! 0) 0) = sint (d (inputDims ! 2) 0)
            \<and> sint (d (inputDims ! 1) 0) = 6 * sint (d (inputDims ! 2) 0)"
    using assms(1,2) six eq by (auto simp: configurePlugin_Inr_iff)
  have sets: "\<forall>p'. configurePlugin p inputDims nbInputs inputTypes floatFormat = Inr p' \<longrightarrow>
               p' = p\<lparr>count := scast (d (inputDims ! 0) 0)\<rparr>"
    by (simp add: configurePlugin_Inr_iff)
  have fails: "(\<forall>p'. configurePlugin p inputDims nbInputs inputTypes floatFormat \<noteq> Inr p') \<longleftrightarrow>
              configurePlugin p inputDims nbInputs inputTypes floatFormat = Inl AssertionFailed"
    using assms(1,2) by (cases inputTypes) (auto simp: configurePlugin_def)
  have run: "enqueue nms_rotate q batchSize inputs outputs workspace stream
             = (nms_rotate batchSize inputs outputs (count q) (detections_per_im q) (nms_thresh q)
                  workspace (fst (getWorkspaceSize nms_rotate q batchSize)) stream,
                snd (getWorkspaceSize nms_rotate q batchSize))"
    by (simp add: enqueue_def getWorkspaceSize_def Let_def)
  show ?thesis
    using accepts sets fails run by blast
qed

theorem configurePlugin_accepts_iff_witness:
  "[kFLOAT, kFLOAT, kFLOAT] \<noteq> []
   \<and> 3 \<le> length [Dims3 2 1 1, Dims3 12 1 1, Dims3 2 1 1]
   \<and> - (2 ^ 31) \<le> 6 * sint (d ([Dims3 2 1 1, Dims3 12 1 1, Dims3 2 1 1] ! 2) 0)
   \<and> 6 * sint (d ([Dims3 2 1 1, Dims3 12 1 1, Dims3 2 1 1] ! 2) 0) < 2 ^ 31
   \<and> (\<exists>p'. configurePlugin
               \<lparr>nms_thresh = 0x3F000000, detections_per_im = 100, count = 1000, size_m = - 1\<rparr>
               [Dims3 2 1 1, Dims3 12 1 1, Dims3 2 1 1] 3 [kFLOAT, kFLOAT, kFLOAT] kLINEAR
             = Inr p')
   \<and> configurePlugin
        \<lparr>nms_thresh = 0x3F000000, detections_per_im = 100, count = 1000, size_m = - 1\<rparr>
        [Dims3 2 1 1, Dims3 12 1 1, Dims3 2 1 1] 3 [kFLOAT, kFLOAT, kFLOAT] kCHW32
       = Inl AssertionFailed"
proof -
  have h: "- (2 ^ 31) \<le> 6 * sint (d ([Dims3 2 1 1, Dims3 12 1 1, Dims3 2 1 1] ! 2) 0)"
      "6 * sint (d ([Dims3 2 1 1, Dims3 12 1 1, Dims3 2 1 1] ! 2) 0) < 2 ^ 31"
    by (simp_all add: Dims3_def)
  have ne: "[kFLOAT, kFLOAT, kFLOAT] \<noteq> []"
    by simp
  have len: "3 \<le> length [Dims3 2 1 1, Dims3 12 1 1, Dims3 2 1 1]"
    by simp
  note linear = configurePlugin_accepts_iff
    [OF ne len h,
     where p = "\<lparr>nms_thresh = 0x3F000000, detections_per_im = 100, count = 1000, size_m = - 1\<rparr>"
       and nbInputs = 3 and floatFormat = kLINEAR]
  note chw32 = configurePlugin_accepts_iff
    [OF ne len h,
     where p = "\<lparr>nms_thresh = 0x3F000000, detections_per_im = 100, count = 1000, size_m = - 1\<rparr>"
       and nbInputs = 3 and floatFormat = kCHW32]
  have a: "\<exists>p'. configurePlugin
               \<lparr>nms_thresh = 0x3F000000, detections_per_im = 100, count = 1000, size_m = - 1\<rparr>
               [Dims3 2 1 1, Dims3 12 1 1, Dims3 2 1 1] 3 [kFLOAT, kFLOAT, kFLOAT] kLINEAR
             = Inr p'"
    using linear [THEN conjunct1] by (simp add: Dims3_def)
  have "\<forall>p'. configurePlugin
               \<lparr>nms_thresh = 0x3F000000, detections_per_im = 100, count = 1000, size_m = - 1\<rparr>
               [Dims3 2 1 1, Dims3 12 1 1, Dims3 2 1 1] 3 [kFLOAT, kFLOAT, kFLOAT] kCHW32
             \<noteq> Inr p'"
    using chw32 [THEN conjunct1] by simp
  then have b: "configurePlugin
        \<lparr>nms_thresh = 0x3F000000, detections_per_im = 100, count = 1000, size_m = - 1\<rparr>
        [Dims3 2 1 1, Dims3 12 1 1, Dims3 2 1 1] 3 [kFLOAT, kFLOAT, kFLOAT] kCHW32
       = Inl AssertionFailed"
    using chw32 [THEN conjunct2, THEN conjunct2, THEN conjunct1] by blast
  show ?thesis using h a b by simp
qed

text \<open>
  Claim C5 as first stated asks for three inputs of single-precision float and for a
  boxes length of six times the classes length. The assertion reads \<open>*inputTypes\<close> only:
  with a half-precision second input and an 8-bit third input the configuration is
  accepted. The product with 6 is an \<open>int\<close> product: with 715827883 scores and classes
  it is 2, and a boxes length of 2 is accepted.
\<close>

theorem configurePlugin_accepts_counterexample:
  "configurePlugin
     \<lparr>nms_thresh = 0x3F000000, detections_per_im = 100, count = 1000, size_m = - 1\<rparr>
     [Dims3 2 1 1, Dims3 12 1 1, Dims3 2 1 1] 3 [kFLOAT, kHALF, kINT8] kLINEAR
     = Inr \<lparr>nms_thresh = 0x3F000000, detections_per_im = 100, count = 2, size_m = - 1\<rparr>
   \<and> [kFLOAT, kHALF, kINT8] ! 1 \<noteq> kFLOAT \<and> [kFLOAT, kHALF, kINT8] ! 2 \<noteq> kFLOAT
   \<and> configurePlugin
        \<lparr>nms_thresh = 0x3F000000, detections_per_im = 100, count = 1000, size_m = - 1\<rparr>
        [Dims3 715827883 1 1, Dims3 2 1 1, Dims3 715827883 1 1] 3 [kFLOAT, kFLOAT, kFLOAT] kLINEAR
       = Inr \<lparr>nms_thresh = 0x3F000000, detections_per_im = 100, count = 715827883, size_m = - 1\<rparr>
   \<and> sint (2 :: int32) \<noteq> 6 * sint (715827883 :: int32)"
  by (simp add: configurePlugin_def Dims3_def)

section \<open>The cached workspace size\<close>






text \<open>
  Claim C10, amended. For a plugin with \<open>nms_thresh > 0\<close>, \<open>detections_per_im > 0\<close> and
  \<open>count > 0\<close>, \<open>clone\<close> returns a new plugin whose \<open>nms_thresh\<close>, \<open>detections_per_im\<close> and
  \<open>count\<close> equal those of the original and whose cached workspace size is unset, so that
  the first query on the clone calls the sizing path, whatever size the original had
  stored. For any other plugin an assertion of the constructor that \<open>clone\<close> calls fails.
\<close>

theorem clone_copies_configuration:
  "clone p =
     (if float_gt_zero (nms_thresh p) \<and> 0 <s detections_per_im p \<and> 0 < count p
      then Inr \<lparr>nms_thresh = nms_thresh p, detections_per_im = detections_per_im p,
                count = count p, size_m = - 1\<rparr>
      else Inl AssertionFailed)
   \<and> (\<forall>c. clone p = Inr c \<longrightarrow>
         nms_thresh c = nms_thresh p \<and> detections_per_im c = detections_per_im p
         \<and> count c = count p \<and> size_m c = - 1
         \<and> fst (getWorkspaceSize f c b) =
             scast (fst (f b None None (count p) (detections_per_im p) (nms_thresh p)
                          None 0 None)))"
  by (auto simp: clone_def NMSRotatePlugin3_def getWorkspaceSize_def)

theorem clone_copies_configuration_witness:
  "float_gt_zero 0x3F000000 \<and> 0 <s (100 :: int32) \<and> 0 < (1000 :: size_t)
   \<and> clone \<lparr>nms_thresh = 0x3F000000, detections_per_im = 100, count = 1000, size_m = 4000\<rparr>
      = Inr \<lparr>nms_thresh = 0x3F000000, detections_per_im = 100, count = 1000, size_m = - 1\<rparr>
   \<and> fst (getWorkspaceSize example_nms_rotate
        \<lparr>nms_thresh = 0x3F000000, detections_per_im = 100, count = 1000, size_m = - 1\<rparr> 2)
      = 8000"
proof -
  have pos: "float_gt_zero 0x3F000000"
    by (simp add: float_gt_zero_def float_sign_def float_is_nan_def float_is_zero_def
        float_exponent_def float_mantissa_def)
  show ?thesis
    using clone_copies_configuration
      [of "\<lparr>nms_thresh = 0x3F000000, detections_per_im = 100, count = 1000, size_m = 4000\<rparr>"
          example_nms_rotate 2] pos
    by (simp add: example_nms_rotate_def word_sless_alt)
qed

text \<open>
  Claim C10 as first stated has no condition on the original. The two-argument
  constructor leaves \<open>_count\<close> as it finds it; where that is 0, the plugin it builds
  cannot be cloned: the assertion \<open>count > 0\<close> fails.
\<close>

theorem clone_counterexample:
  "NMSRotatePlugin2 0x3F000000 100 0
     = Inr \<lparr>nms_thresh = 0x3F000000, detections_per_im = 100, count = 0, size_m = - 1\<rparr>
   \<and> clone \<lparr>nms_thresh = 0x3F000000, detections_per_im = 100, count = 0, size_m = - 1\<rparr>
     = Inl AssertionFailed"
proof -
  have pos: "float_gt_zero 0x3F000000"
    by (simp add: float_gt_zero_def float_sign_def float_is_nan_def float_is_zero_def
        float_exponent_def float_mantissa_def)
  show ?thesis
    using pos by (simp add: NMSRotatePlugin2_def clone_def NMSRotatePlugin3_def word_sless_alt)
qed

section \<open>Properties of the suppression pass\<close>

text \<open>
  The invariant of the engine's loop: every kept detection has an overlap of at most the
  threshold with each detection kept before it.
\<close>

lemma suppress_later_earlier:
  assumes "\<forall>i < length kept. \<forall>j < i. overlap (box (kept ! i)) (box (kept ! j)) \<le> thresh"
  shows "\<forall>i < length (suppress overlap thresh per_im kept cs). \<forall>j < i.
           overlap (box (suppress overlap thresh per_im kept cs ! i))
                   (box (suppress overlap thresh per_im kept cs ! j)) \<le> thresh"
  using assms
proof (induction cs arbitrary: kept)
  case Nil
  then show ?case by simp
next
  case (Cons c cs)
  show ?case
  proof (cases "per_im \<le> length kept")
    case True
    then show ?thesis using Cons.prems by simp
  next
    case False
    show ?thesis
    proof (cases "list_all (\<lambda>k. overlap (box c) (box k) \<le> thresh) kept")
      case True
      have inv: "\<forall>i < length (kept @ [c]). \<forall>j < i.
                   overlap (box ((kept @ [c]) ! i)) (box ((kept @ [c]) ! j)) \<le> thresh"
      proof (intro allI impI)
        fix i j
        assume i: "i < length (kept @ [c])" and j: "j < i"
        show "overlap (box ((kept @ [c]) ! i)) (box ((kept @ [c]) ! j)) \<le> thresh"
        proof (cases "i < length kept")
          case True
          then show ?thesis using Cons.prems j by (simp add: nth_append)
        next
          case False
          then have "i = length kept" using i by simp
          moreover have "overlap (box c) (box (kept ! j)) \<le> thresh"
            using True j \<open>i = length kept\<close> by (simp add: list_all_length)
          ultimately show ?thesis using j by (simp add: nth_append)
        qed
      qed
      show ?thesis
        using Cons.IH [OF inv] True False by simp
    next
      case no: False
      show ?thesis
        using Cons.IH [OF Cons.prems] no False by simp
    qed
  qed
qed

lemma suppression_engine_later_earlier:
  assumes "i < length (suppression_engine overlap thresh per_im candidates)" and "j < i"
  shows "overlap (box (suppression_engine overlap thresh per_im candidates ! i))
                 (box (suppression_engine overlap thresh per_im candidates ! j)) \<le> thresh"
proof -
  have "\<forall>i < length ([] :: ('a, 'b) Candidate list). \<forall>j < i.
          overlap (box ([] ! i)) (box ([] ! j)) \<le> thresh"
    by simp
  from suppress_later_earlier [OF this] assms show ?thesis
    unfolding suppression_engine_def by blast
qed

lemma length_suppress:
  "length kept \<le> per_im \<Longrightarrow> length (suppress overlap thresh per_im kept cs) \<le> per_im"
  by (induction cs arbitrary: kept) auto

text \<open>
  Claim C4. For every image of a batch processed by one suppression pass, any two
  distinct kept detections of that image have an overlap of at most \<open>nms_thresh\<close>. The
  overlap is the rotated intersection over union of section 4.1, a symmetric quantity;
  the engine compares a candidate with the detections kept before it.
\<close>

theorem kept_overlap_bound:
  assumes sym: "\<And>a b. overlap a b = overlap b a"
    and kept: "kept \<in> set (batch_dispatcher overlap thresh per_im batch)"
    and i: "i < length kept" and j: "j < length kept" and ij: "i \<noteq> j"
  shows "overlap (box (kept ! i)) (box (kept ! j)) \<le> thresh"
proof -
  obtain candidates where k: "kept = suppression_engine overlap thresh per_im candidates"
    using kept by (auto simp: batch_dispatcher_def)
  show ?thesis
  proof (cases "j < i")
    case True
    then show ?thesis using i unfolding k by (rule suppression_engine_later_earlier [rotated])
  next
    case False
    then have "i < j" using ij by simp
    then have "overlap (box (kept ! j)) (box (kept ! i)) \<le> thresh"
      using j unfolding k by (rule suppression_engine_later_earlier [rotated])
    then show ?thesis by (simp add: sym [of "box (kept ! i)"])
  qed
qed

theorem kept_overlap_bound_witness:
  "batch_dispatcher (\<lambda>a b. if a = b then 100 else (0::nat)) 50 2
     [[\<lparr>score = 9::nat, box = 1::nat, class_id = 0\<rparr>, \<lparr>score = 5, box = 1, class_id = 0\<rparr>,
       \<lparr>score = 7, box = 2, class_id = 0\<rparr>]]
     = [[\<lparr>score = 9, box = 1, class_id = 0\<rparr>, \<lparr>score = 7, box = 2, class_id = 0\<rparr>]]
   \<and> (\<lambda>a b. if a = b then 100 else (0::nat))
        (box ([\<lparr>score = 9::nat, box = 1::nat, class_id = 0\<rparr>,
               \<lparr>score = 7, box = 2, class_id = 0\<rparr>] ! 0))
        (box ([\<lparr>score = 9::nat, box = 1::nat, class_id = 0\<rparr>,
               \<lparr>score = 7, box = 2, class_id = 0\<rparr>] ! 1))
       \<le> 50"
proof -
  have run:
    "batch_dispatcher (\<lambda>a b. if a = b then 100 else (0::nat)) 50 2
       [[\<lparr>score = 9::nat, box = 1::nat, class_id = 0\<rparr>, \<lparr>score = 5, box = 1, class_id = 0\<rparr>,
         \<lparr>score = 7, box = 2, class_id = 0\<rparr>]]
     = [[\<lparr>score = 9, box = 1, class_id = 0\<rparr>, \<lparr>score = 7, box = 2, class_id = 0\<rparr>]]"
    by code_simp
  have sym: "\<And>a b :: nat. (if a = b then 100 else (0::nat)) = (if b = a then 100 else 0)"
    by auto
  have mem:
    "[\<lparr>score = 9::nat, box = 1::nat, class_id = 0\<rparr>, \<lparr>score = 7, box = 2, class_id = 0\<rparr>]
       \<in> set (batch_dispatcher (\<lambda>a b. if a = b then 100 else (0::nat)) 50 2
           [[\<lparr>score = 9::nat, box = 1::nat, class_id = 0\<rparr>, \<lparr>score = 5, box = 1, class_id = 0\<rparr>,
             \<lparr>score = 7, box = 2, class_id = 0\<rparr>]])"
    by (simp only: run) simp
  have "(\<lambda>a b. if a = b then 100 else (0::nat))
        (box ([\<lparr>score = 9::nat, box = 1::nat, class_id = 0\<rparr>,
               \<lparr>score = 7, box = 2, class_id = 0\<rparr>] ! 0))
        (box ([\<lparr>score = 9::nat, box = 1::nat, class_id = 0\<rparr>,
               \<lparr>score = 7, box = 2, class_id = 0\<rparr>] ! 1))
       \<le> 50"
    by (rule kept_overlap_bound [OF sym mem]) simp_all
  with run show ?thesis by blast
qed

end
